theory Spec2Isabelle
  imports Main "HOL-Library.Word"
begin

unbundle bit_operations_syntax

section \<open>Data model\<close>

type_synonym uint8_t = "8 word"

text \<open>
  Modelled from the spec: the header \<open>ADXL345.h\<close> with the declaration of
  \<open>ADXL345_COMM_t\<close> is absent. The spec names two enumerators (I2C, SPI). A C++
  enumeration object can hold a value that is no enumerator; the third constructor
  stands for every such value.
\<close>

datatype ADXL345_COMM_t = ADXL345_COMM_I2C | ADXL345_COMM_SPI | ADXL345_COMM_INVALID

text \<open>The class \<open>ADXL345\<close>: the field \<open>csPin\<close> is the member \<open>_csPin\<close>.\<close>

record ADXL345 =
  communicationType :: ADXL345_COMM_t
  csPin :: uint8_t

definition ADXL345_I2C_ADDRESS :: uint8_t where
  "ADXL345_I2C_ADDRESS = 0x53"

section \<open>The platform: Wire, SPI and the digital pins\<close>

datatype level = LOW | HIGH

datatype pin_mode = INPUT | OUTPUT

datatype spi_mode = SPI_MODE0 | SPI_MODE1 | SPI_MODE2 | SPI_MODE3

text \<open>Every call of the driver into the platform, with its arguments.\<close>

datatype hal_call =
    WireBegin
  | WireBeginTransmission uint8_t
  | WireWrite uint8_t
  | WireEndTransmission bool
  | WireRequestFrom uint8_t int bool
  | WireAvailable
  | WireRead
  | SpiBegin
  | SpiSetDataMode spi_mode
  | SpiTransfer uint8_t
  | PinMode uint8_t pin_mode
  | DigitalWrite uint8_t level

text \<open>
  The simulated SPI slave is deselected, or selected and waiting for the address byte,
  or inside a transfer: reading or writing, single or multiple bytes, at an address.
\<close>

datatype spi_phase = Deselected | Command | Data bool bool uint8_t

text \<open>
  Modelled from the spec: the platform calls (\<open>Wire\<close>, \<open>SPI\<close>, \<open>pinMode\<close>,
  \<open>digitalWrite\<close>) and the device behind them are not code of this repository. The
  state holds the driver object, the memory the caller's buffers live in, the log of all
  platform calls, the pin levels and the simulated register file of the spec (section 8):
  a bus model that maps each 8-bit address to the last byte written to it, reached
  through the I2C protocol (device address, register pointer with auto-increment) and the
  SPI protocol (section 6: bit 7 of the address byte marks a read, bit 6 a multi-byte
  transfer, chip-select low for the duration of a transaction). \<open>BUFFER_LENGTH\<close> is
  the capacity of the receive buffer of \<open>Wire\<close>, a parameter of the platform.
\<close>

record state =
  self :: ADXL345
  memory :: "nat \<Rightarrow> uint8_t"
  trace :: "hal_call list"
  pin_level :: "uint8_t \<Rightarrow> level"
  regs :: "uint8_t \<Rightarrow> uint8_t"
  cs_line :: uint8_t
  spi_phase :: spi_phase
  i2c_pointer :: uint8_t
  BUFFER_LENGTH :: nat
  txAddress :: uint8_t
  txBuffer :: "uint8_t list"
  rxBuffer :: "uint8_t list"

definition log_call :: "hal_call \<Rightarrow> state \<Rightarrow> state" where
  "log_call c s = s\<lparr>trace := trace s @ [c]\<rparr>"

subsection \<open>Digital pins and SPI\<close>

definition pinMode :: "uint8_t \<Rightarrow> pin_mode \<Rightarrow> state \<Rightarrow> state" where
  "pinMode pin m s = log_call (PinMode pin m) s"

text \<open>
  A falling edge on the line the slave's chip-select is wired to opens a transaction; the
  high level closes it. Driving a line low that is low already changes nothing.
\<close>

definition digitalWrite :: "uint8_t \<Rightarrow> level \<Rightarrow> state \<Rightarrow> state" where
  "digitalWrite pin v s =
     (let s1 = log_call (DigitalWrite pin v) s;
          s2 = s1\<lparr>pin_level := (pin_level s1)(pin := v)\<rparr>
      in if pin = cs_line s then
           (case v of
              HIGH \<Rightarrow> s2\<lparr>spi_phase := Deselected\<rparr>
            | LOW \<Rightarrow> (if spi_phase s = Deselected then s2\<lparr>spi_phase := Command\<rparr> else s2))
         else s2)"

definition SPI_begin :: "state \<Rightarrow> state" where
  "SPI_begin s = log_call SpiBegin s"

definition SPI_setDataMode :: "spi_mode \<Rightarrow> state \<Rightarrow> state" where
  "SPI_setDataMode m s = log_call (SpiSetDataMode m) s"

text \<open>
  One byte out, one byte in. A deselected slave ignores the byte and drives nothing (the
  master reads 0). The first byte of a transaction is the address byte. Each later byte
  is stored (write) or answered with the register (read); the address advances only in
  a multi-byte transfer.
\<close>

definition SPI_transfer :: "uint8_t \<Rightarrow> state \<Rightarrow> uint8_t \<times> state" where
  "SPI_transfer b s =
     (let s1 = log_call (SpiTransfer b) s in
      case spi_phase s of
        Deselected \<Rightarrow> (0, s1)
      | Command \<Rightarrow> (0, s1\<lparr>spi_phase := Data (bit b 7) (bit b 6) (b AND 0x3F)\<rparr>)
      | Data rd mb a \<Rightarrow>
          (if rd then regs s a else 0,
           s1\<lparr>regs := (if rd then regs s else (regs s)(a := b)),
              spi_phase := Data rd mb (if mb then a + 1 else a)\<rparr>))"

subsection \<open>Wire\<close>

definition Wire_begin :: "state \<Rightarrow> state" where
  "Wire_begin s = log_call WireBegin s"

definition Wire_beginTransmission :: "uint8_t \<Rightarrow> state \<Rightarrow> state" where
  "Wire_beginTransmission address s =
     (log_call (WireBeginTransmission address) s)\<lparr>txAddress := address, txBuffer := []\<rparr>"

definition Wire_write :: "uint8_t \<Rightarrow> state \<Rightarrow> state" where
  "Wire_write b s = (log_call (WireWrite b) s)\<lparr>txBuffer := txBuffer s @ [b]\<rparr>"

text \<open>
  The device takes the first byte of a write as its register pointer and stores every
  further byte at the pointer, which then advances.
\<close>

fun i2c_store :: "uint8_t list \<Rightarrow> state \<Rightarrow> state" where
  "i2c_store [] s = s"
| "i2c_store (b # bs) s =
     i2c_store bs (s\<lparr>regs := (regs s)(i2c_pointer s := b), i2c_pointer := i2c_pointer s + 1\<rparr>)"

definition i2c_deliver :: "uint8_t list \<Rightarrow> state \<Rightarrow> state" where
  "i2c_deliver payload s =
     (case payload of [] \<Rightarrow> s | a # bs \<Rightarrow> i2c_store bs (s\<lparr>i2c_pointer := a\<rparr>))"

text \<open>
  \<open>endTransmission\<close> puts the buffered bytes on the bus, with or without a stop
  condition. Its status result is not used by the driver and is left out.
\<close>

definition Wire_endTransmission :: "bool \<Rightarrow> state \<Rightarrow> state" where
  "Wire_endTransmission sendStop s =
     (let s1 = log_call (WireEndTransmission sendStop) s;
          s2 = (if txAddress s = ADXL345_I2C_ADDRESS then i2c_deliver (txBuffer s) s1 else s1)
      in s2\<lparr>txBuffer := []\<rparr>)"

text \<open>
  \<open>requestFrom\<close> reads at most \<open>BUFFER_LENGTH\<close> bytes into the receive buffer,
  from the register pointer upwards. Its result (the count) is not used by the driver.
\<close>

definition Wire_requestFrom :: "uint8_t \<Rightarrow> int \<Rightarrow> bool \<Rightarrow> state \<Rightarrow> state" where
  "Wire_requestFrom address quantity sendStop s =
     (let s1 = log_call (WireRequestFrom address quantity sendStop) s;
          n = min (nat quantity) (BUFFER_LENGTH s)
      in if address = ADXL345_I2C_ADDRESS then
           s1\<lparr>rxBuffer := map (\<lambda>k. regs s (i2c_pointer s + of_nat k)) [0..<n],
              i2c_pointer := i2c_pointer s + of_nat n\<rparr>
         else s1\<lparr>rxBuffer := []\<rparr>)"

definition Wire_available :: "state \<Rightarrow> int \<times> state" where
  "Wire_available s = (int (length (rxBuffer s)), log_call WireAvailable s)"

text \<open>\<open>read\<close> takes the next received byte, or gives -1 when there is none.\<close>

definition Wire_read :: "state \<Rightarrow> int \<times> state" where
  "Wire_read s =
     (case rxBuffer s of
        [] \<Rightarrow> (- 1, log_call WireRead s)
      | b # bs \<Rightarrow> (uint b, (log_call WireRead s)\<lparr>rxBuffer := bs\<rparr>))"

section \<open>The driver\<close>

text \<open>\<open>*p = v\<close> on the caller's memory.\<close>

definition poke :: "nat \<Rightarrow> uint8_t \<Rightarrow> state \<Rightarrow> state" where
  "poke p v s = s\<lparr>memory := (memory s)(p := v)\<rparr>"

text \<open>
  The constructor \<open>ADXL345::ADXL345(commType, csPin)\<close>; its parameter \<open>csPin\<close>
  is \<open>pin\<close> here, and a call that leaves it out passes the default 0.
\<close>

definition ADXL345_new :: "ADXL345_COMM_t \<Rightarrow> uint8_t \<Rightarrow> state \<Rightarrow> state" where
  "ADXL345_new commType pin s =
     (let s0 = s\<lparr>self := \<lparr>communicationType = commType, csPin = pin\<rparr>\<rparr> in
      if communicationType (self s0) = ADXL345_COMM_SPI then
        (let s1 = SPI_begin s0;
             s2 = SPI_setDataMode SPI_MODE3 s1;
             s3 = pinMode pin OUTPUT s2
         in digitalWrite pin HIGH s3)
      else if communicationType (self s0) = ADXL345_COMM_I2C then
        Wire_begin s0
      else s0)"

definition writeReg :: "uint8_t \<Rightarrow> uint8_t \<Rightarrow> state \<Rightarrow> state" where
  "writeReg regAddr data s =
     (if communicationType (self s) = ADXL345_COMM_I2C then
        (let s1 = Wire_beginTransmission ADXL345_I2C_ADDRESS s;
             s2 = Wire_write regAddr s1;
             s3 = Wire_write data s2
         in Wire_endTransmission True s3)
      else if communicationType (self s) = ADXL345_COMM_SPI then
        (let s1 = digitalWrite (csPin (self s)) LOW s;
             s2 = snd (SPI_transfer regAddr s1);
             s3 = snd (SPI_transfer data s2)
         in digitalWrite (csPin (self s3)) HIGH s3)
      else s)"

text \<open>
  The local \<open>buffer\<close> of \<open>readReg\<close> has no initialiser: \<open>None\<close> is the
  indeterminate value it holds until a branch assigns it.
\<close>

definition readReg :: "uint8_t \<Rightarrow> state \<Rightarrow> uint8_t option \<times> state" where
  "readReg regAddr s =
     (let buffer = None in
      if communicationType (self s) = ADXL345_COMM_I2C then
        (let s1 = Wire_beginTransmission ADXL345_I2C_ADDRESS s;
             s2 = Wire_write regAddr s1;
             s3 = Wire_endTransmission False s2;
             s4 = Wire_requestFrom ADXL345_I2C_ADDRESS 1 True s3;
             r = Wire_read s4;
             buffer = Some (word_of_int (fst r))
         in (buffer, snd r))
      else if communicationType (self s) = ADXL345_COMM_SPI then
        (let spiAddress = 0x80 OR regAddr;
             s1 = digitalWrite (csPin (self s)) LOW s;
             s2 = snd (SPI_transfer spiAddress s1);
             r = SPI_transfer 0x00 s2;
             buffer = Some (fst r)
         in (buffer, digitalWrite spiAddress HIGH (snd r)))
      else (buffer, s))"

text \<open>\<open>while(Wire.available()) *pBuffer++ = (uint8_t) Wire.read();\<close>\<close>

function readRegs_while :: "nat \<Rightarrow> state \<Rightarrow> state" where
  "readRegs_while pBuffer s =
     (if fst (Wire_available s) \<noteq> 0 then
        readRegs_while (pBuffer + 1)
          (poke pBuffer (word_of_int (fst (Wire_read (snd (Wire_available s)))))
             (snd (Wire_read (snd (Wire_available s)))))
      else snd (Wire_available s))"
  by pat_completeness auto
termination
  by (relation "measure (\<lambda>(p, s). length (rxBuffer s))")
     (auto simp: Wire_available_def Wire_read_def poke_def log_call_def split: list.splits)

text \<open>\<open>for(uint8_t i = 0; i < size; i++) *pBuffer++ = SPI.transfer(0x00);\<close>\<close>

function readRegs_for :: "uint8_t \<Rightarrow> uint8_t \<Rightarrow> nat \<Rightarrow> state \<Rightarrow> state" where
  "readRegs_for i size' pBuffer s =
     (if i < size' then
        readRegs_for (i + 1) size' (pBuffer + 1)
          (poke pBuffer (fst (SPI_transfer 0x00 s)) (snd (SPI_transfer 0x00 s)))
      else s)"
  by pat_completeness auto
termination
proof (relation "measure (\<lambda>(i, size', p, s). unat size' - unat i)")
  show "wf (measure (\<lambda>(i, size', p, s). unat size' - unat i))"
    by simp
next
  fix i size' :: uint8_t and pBuffer :: nat and s :: state
  assume "i < size'"
  then have "unat i < unat size'" and "unat (i + 1) = unat i + 1"
    by unat_arith+
  then show "((i + 1, size', pBuffer + 1,
               poke pBuffer (fst (SPI_transfer 0 s)) (snd (SPI_transfer 0 s))),
              (i, size', pBuffer, s))
             \<in> measure (\<lambda>(i, size', p, s). unat size' - unat i)"
    by simp
qed

text \<open>\<open>readRegs\<close>: the pointer \<open>pBuffer\<close> is \<open>None\<close> when it is \<open>NULL\<close>.\<close>

definition readRegs :: "uint8_t \<Rightarrow> nat option \<Rightarrow> uint8_t \<Rightarrow> state \<Rightarrow> state" where
  "readRegs regAddr pBuffer size' s =
     (case pBuffer of
        None \<Rightarrow> s
      | Some p \<Rightarrow>
          if communicationType (self s) = ADXL345_COMM_I2C then
            (let s1 = Wire_beginTransmission ADXL345_I2C_ADDRESS s;
                 s2 = Wire_write regAddr s1;
                 s3 = Wire_endTransmission True s2;
                 s4 = Wire_requestFrom ADXL345_I2C_ADDRESS (uint size') True s3
             in readRegs_while p s4)
          else if communicationType (self s) = ADXL345_COMM_SPI then
            (let spiAddress = 0x80 OR regAddr;
                 spiAddress = (if size' > 1 then spiAddress OR 0x40 else spiAddress);
                 s1 = digitalWrite (csPin (self s)) LOW s;
                 s2 = snd (SPI_transfer spiAddress s1);
                 s3 = readRegs_for 0 size' p s2
             in digitalWrite (csPin (self s3)) HIGH s3)
          else s)"

section \<open>Observations on a run\<close>

text \<open>The platform calls made between two states of one run.\<close>

definition emitted :: "state \<Rightarrow> state \<Rightarrow> hal_call list" where
  "emitted s s' = drop (length (trace s)) (trace s')"

text \<open>The first byte put on the SPI bus, if any: the address byte of a transaction.\<close>

fun first_transfer :: "hal_call list \<Rightarrow> uint8_t option" where
  "first_transfer [] = None"
| "first_transfer (SpiTransfer b # cs) = Some b"
| "first_transfer (c # cs) = first_transfer cs"

fun is_transfer :: "hal_call \<Rightarrow> bool" where
  "is_transfer (SpiTransfer b) = True"
| "is_transfer c = False"

text \<open>
  The chip-select discipline of the spec (sections 6 and 8) on the calls of one
  operation: the line \<open>cs\<close> is driven low first, driven high last, and everything in
  between is a bus transfer, so the line stays low for the whole transaction.
\<close>

definition cs_framed :: "uint8_t \<Rightarrow> hal_call list \<Rightarrow> bool" where
  "cs_framed cs evs \<longleftrightarrow>
     2 < length evs \<and> hd evs = DigitalWrite cs LOW \<and> last evs = DigitalWrite cs HIGH
     \<and> list_all is_transfer (butlast (tl evs))"

text \<open>
  The read-address encoding in the spec's words (section 8): bit 7 is set, and bit 6 is
  set if and only if \<open>count > 1\<close>.
\<close>

definition read_address_encoding :: "uint8_t \<Rightarrow> nat \<Rightarrow> bool" where
  "read_address_encoding b count \<longleftrightarrow> bit b 7 \<and> (bit b 6 \<longleftrightarrow> 1 < count)"

text \<open>The life of a handle after construction: any sequence of calls of its methods.\<close>

datatype call =
    WriteReg uint8_t uint8_t
  | ReadReg uint8_t
  | ReadRegs uint8_t "nat option" uint8_t

fun perform :: "call \<Rightarrow> state \<Rightarrow> state" where
  "perform (WriteReg regAddr data) s = writeReg regAddr data s"
| "perform (ReadReg regAddr) s = snd (readReg regAddr s)"
| "perform (ReadRegs regAddr pBuffer size') s = readRegs regAddr pBuffer size' s"

subsection \<open>A concrete board\<close>

text \<open>
  A board before construction: no call made yet, every line high, the slave's
  chip-select wired to line 10, a receive buffer of 32 bytes, and a register file in
  which every register holds its own address.
\<close>

definition power_on :: state where
  "power_on =
     \<lparr>self = \<lparr>communicationType = ADXL345_COMM_INVALID, csPin = 0\<rparr>,
      memory = (\<lambda>_. 0), trace = [], pin_level = (\<lambda>_. HIGH), regs = (\<lambda>a. a),
      cs_line = 10, spi_phase = Deselected, i2c_pointer = 0, BUFFER_LENGTH = 32,
      txAddress = 0, txBuffer = [], rxBuffer = []\<rparr>"

definition spi_handle :: state where
  "spi_handle = ADXL345_new ADXL345_COMM_SPI 10 power_on"

definition i2c_handle :: state where
  "i2c_handle = ADXL345_new ADXL345_COMM_I2C 0 power_on"

section \<open>Facts about the platform\<close>

declare readRegs_while.simps [simp del] readRegs_for.simps [simp del]

lemmas hal_defs = log_call_def pinMode_def digitalWrite_def SPI_begin_def SPI_setDataMode_def
  SPI_transfer_def Wire_begin_def Wire_beginTransmission_def Wire_write_def i2c_deliver_def
  Wire_endTransmission_def Wire_requestFrom_def Wire_available_def Wire_read_def poke_def
  ADXL345_I2C_ADDRESS_def

lemma self_digitalWrite [simp]: "self (digitalWrite pin v s) = self s"
  by (simp add: digitalWrite_def log_call_def Let_def split: level.split)

lemma self_SPI_transfer [simp]: "self (snd (SPI_transfer b s)) = self s"
  by (simp add: SPI_transfer_def log_call_def Let_def split: spi_phase.split)

lemma trace_digitalWrite [simp]: "trace (digitalWrite pin v s) = trace s @ [DigitalWrite pin v]"
  by (simp add: digitalWrite_def log_call_def Let_def split: level.split)

lemma trace_SPI_transfer [simp]: "trace (snd (SPI_transfer b s)) = trace s @ [SpiTransfer b]"
  by (simp add: SPI_transfer_def log_call_def Let_def split: spi_phase.split)

lemma memory_digitalWrite [simp]: "memory (digitalWrite pin v s) = memory s"
  by (simp add: digitalWrite_def log_call_def Let_def split: level.split)

lemma self_i2c_store [simp]: "self (i2c_store bs s) = self s"
  by (induction bs arbitrary: s) simp_all

lemma trace_i2c_store [simp]: "trace (i2c_store bs s) = trace s"
  by (induction bs arbitrary: s) simp_all

lemma self_Wire_endTransmission [simp]: "self (Wire_endTransmission stop s) = self s"
  by (simp add: Wire_endTransmission_def i2c_deliver_def log_call_def Let_def split: list.split)

lemma trace_Wire_endTransmission [simp]:
  "trace (Wire_endTransmission stop s) = trace s @ [WireEndTransmission stop]"
  by (simp add: Wire_endTransmission_def i2c_deliver_def log_call_def Let_def split: list.split)

lemma self_Wire_requestFrom [simp]: "self (Wire_requestFrom a q stop s) = self s"
  by (simp add: Wire_requestFrom_def log_call_def Let_def)

subsection \<open>Bits of the SPI address byte\<close>

lemma low6: "a < 0x40 \<Longrightarrow> a AND 0x3F = a" for a :: uint8_t
  using less_mask_eq [of a 6] by (simp add: mask_eq_exp_minus_1)

lemma bit7_clear: "a < 0x80 \<Longrightarrow> \<not> bit a 7" for a :: uint8_t
proof -
  assume "a < 0x80"
  then have "a AND mask 7 = a"
    using less_mask_eq [of a 7] by simp
  then have "bit a 7 = bit (a AND mask 7) 7"
    by simp
  then show ?thesis
    by (simp add: bit_and_iff bit_mask_iff)
qed

lemma bit6_clear: "a < 0x40 \<Longrightarrow> \<not> bit a 6" for a :: uint8_t
proof -
  assume "a < 0x40"
  then have "a AND mask 6 = a"
    using less_mask_eq [of a 6] by simp
  then have "bit a 6 = bit (a AND mask 6) 6"
    by simp
  then show ?thesis
    by (simp add: bit_and_iff bit_mask_iff)
qed

lemma or80_low6: "(0x80 OR a) AND 0x3F = a AND 0x3F" for a :: uint8_t
  by (simp add: bit.conj_disj_distrib2)

lemma or80_bit7: "bit (0x80 OR a) 7" for a :: uint8_t
  by (simp add: bit_or_iff)

lemma or80_bit6: "bit (0x80 OR a) 6 = bit a 6" for a :: uint8_t
  by (simp add: bit_or_iff)

lemma or40_bit6: "bit (a OR 0x40) 6" for a :: uint8_t
  by (simp add: bit_or_iff)

lemma or40_bit7: "bit (a OR 0x40) 7 = bit a 7" for a :: uint8_t
  by (simp add: bit_or_iff)

lemma or40_low6: "(a OR 0x40) AND 0x3F = a AND 0x3F" for a :: uint8_t
  by (simp add: bit.conj_disj_distrib2)

subsection \<open>The concrete board after construction\<close>

lemma spi_handle_eq:
  "spi_handle = power_on\<lparr>self := \<lparr>communicationType = ADXL345_COMM_SPI, csPin = 10\<rparr>,
     trace := [SpiBegin, SpiSetDataMode SPI_MODE3, PinMode 10 OUTPUT, DigitalWrite 10 HIGH]\<rparr>"
  by (simp add: spi_handle_def ADXL345_new_def power_on_def hal_defs Let_def fun_upd_idem)

lemma i2c_handle_eq:
  "i2c_handle = power_on\<lparr>self := \<lparr>communicationType = ADXL345_COMM_I2C, csPin = 0\<rparr>,
     trace := [WireBegin]\<rparr>"
  by (simp add: i2c_handle_def ADXL345_new_def power_on_def hal_defs Let_def)

text \<open>
  Construction in SPI mode on the line the slave is wired to leaves the slave deselected:
  the state the theorems on SPI transactions start from.
\<close>

lemma ADXL345_new_spi_idle:
  "spi_phase (ADXL345_new ADXL345_COMM_SPI (cs_line s) s) = Deselected
   \<and> csPin (self (ADXL345_new ADXL345_COMM_SPI (cs_line s) s))
       = cs_line (ADXL345_new ADXL345_COMM_SPI (cs_line s) s)"
  by (simp add: ADXL345_new_def hal_defs Let_def)

section \<open>The two loops of \<open>readRegs\<close>\<close>

lemma readRegs_while_Nil:
  "rxBuffer s = [] \<Longrightarrow> readRegs_while p s = log_call WireAvailable s"
  by (subst readRegs_while.simps) (simp add: Wire_available_def)

lemma readRegs_while_Cons:
  "rxBuffer s = b # bs \<Longrightarrow>
   readRegs_while p s =
     readRegs_while (p + 1)
       (poke p b ((log_call WireRead (log_call WireAvailable s))\<lparr>rxBuffer := bs\<rparr>))"
  by (subst readRegs_while.simps) (simp add: Wire_available_def Wire_read_def log_call_def)

lemma trace_readRegs_while:
  "trace (readRegs_while p s) =
     trace s @ concat (replicate (length (rxBuffer s)) [WireAvailable, WireRead]) @ [WireAvailable]"
proof (induction "rxBuffer s" arbitrary: p s)
  case Nil
  show ?case
    by (simp add: readRegs_while_Nil [OF Nil [symmetric]] Nil [symmetric] log_call_def)
next
  case (Cons b bs)
  have rx: "rxBuffer s = b # bs"
    using Cons.hyps(2) by simp
  let ?s = "poke p b ((log_call WireRead (log_call WireAvailable s))\<lparr>rxBuffer := bs\<rparr>)"
  have "bs = rxBuffer ?s"
    by (simp add: poke_def)
  from Cons.hyps(1) [OF this, of "p + 1"] show ?case
    by (simp add: readRegs_while_Cons [OF rx] rx poke_def log_call_def)
qed

lemma memory_readRegs_while:
  "memory (readRegs_while p s) q =
     (if p \<le> q \<and> q < p + length (rxBuffer s) then rxBuffer s ! (q - p) else memory s q)"
proof (induction "rxBuffer s" arbitrary: p s)
  case Nil
  show ?case
    by (auto simp add: readRegs_while_Nil [OF Nil [symmetric]] Nil [symmetric] log_call_def)
next
  case (Cons b bs)
  have rx: "rxBuffer s = b # bs"
    using Cons.hyps(2) by simp
  let ?s = "poke p b ((log_call WireRead (log_call WireAvailable s))\<lparr>rxBuffer := bs\<rparr>)"
  have "bs = rxBuffer ?s"
    by (simp add: poke_def)
  from Cons.hyps(1) [OF this, of "p + 1"] show ?case
    by (auto simp add: readRegs_while_Cons [OF rx] rx poke_def log_call_def nth_Cons' Suc_diff_le)
qed

lemma self_readRegs_while: "self (readRegs_while p s) = self s"
proof (induction "rxBuffer s" arbitrary: p s)
  case Nil
  show ?case
    by (simp add: readRegs_while_Nil [OF Nil [symmetric]] log_call_def)
next
  case (Cons b bs)
  have rx: "rxBuffer s = b # bs"
    using Cons.hyps(2) by simp
  let ?s = "poke p b ((log_call WireRead (log_call WireAvailable s))\<lparr>rxBuffer := bs\<rparr>)"
  have "bs = rxBuffer ?s"
    by (simp add: poke_def)
  from Cons.hyps(1) [OF this, of "p + 1"] show ?case
    by (simp add: readRegs_while_Cons [OF rx] rx poke_def log_call_def)
qed

lemma loop_step:
  fixes i n :: uint8_t
  assumes "i < n"
  shows "unat n - unat i = Suc (unat n - unat (i + 1))"
proof -
  from assms have "unat i < unat n" and "unat (i + 1) = unat i + 1"
    by unat_arith+
  then show ?thesis by simp
qed

lemma loop_end:
  fixes i n :: uint8_t
  assumes "\<not> i < n"
  shows "unat n - unat i = 0"
  using assms by unat_arith

lemma trace_readRegs_for:
  "trace (readRegs_for i n p s) = trace s @ replicate (unat n - unat i) (SpiTransfer 0)"
proof (induction i n p s rule: readRegs_for.induct)
  case (1 i n p s)
  show ?case
  proof (cases "i < n")
    case True
    have "trace (poke p (fst (SPI_transfer 0 s)) (snd (SPI_transfer 0 s)))
        = trace s @ [SpiTransfer 0]"
      by (simp add: poke_def SPI_transfer_def log_call_def Let_def split: spi_phase.split)
    with "1" [OF True] True show ?thesis
      by (subst readRegs_for.simps) (simp add: loop_step replicate_append_same)
  next
    case False
    then show ?thesis
      by (subst readRegs_for.simps) (simp add: loop_end)
  qed
qed

lemma self_readRegs_for: "self (readRegs_for i n p s) = self s"
proof (induction i n p s rule: readRegs_for.induct)
  case (1 i n p s)
  show ?case
  proof (cases "i < n")
    case True
    have "self (poke p (fst (SPI_transfer 0 s)) (snd (SPI_transfer 0 s))) = self s"
      by (simp add: poke_def SPI_transfer_def log_call_def Let_def split: spi_phase.split)
    with "1" [OF True] True show ?thesis
      by (subst readRegs_for.simps) simp
  next
    case False
    then show ?thesis
      by (subst readRegs_for.simps) simp
  qed
qed

text \<open>
  Inside a read transaction at address \<open>a\<close> the loop stores the registers from
  \<open>a\<close> upwards in a multi-byte transfer, and the register \<open>a\<close> again and again
  otherwise.
\<close>

lemma memory_readRegs_for:
  "spi_phase s = Data True mb a \<Longrightarrow>
   memory (readRegs_for i n p s) q =
     (if p \<le> q \<and> q < p + (unat n - unat i)
      then regs s (if mb then a + of_nat (q - p) else a) else memory s q)"
proof (induction i n p s arbitrary: a rule: readRegs_for.induct)
  case (1 i n p s)
  show ?case
  proof (cases "i < n")
    case True
    let ?s = "poke p (fst (SPI_transfer 0 s)) (snd (SPI_transfer 0 s))"
    have ph: "spi_phase ?s = Data True mb (if mb then a + 1 else a)"
      and rg: "regs ?s = regs s" and mem: "memory ?s = (memory s)(p := regs s a)"
      using "1.prems" by (simp_all add: poke_def SPI_transfer_def log_call_def Let_def)
    have step: "readRegs_for i n p s = readRegs_for (i + 1) n (p + 1) ?s"
      using True by (subst readRegs_for.simps) simp
    show ?thesis
      unfolding step "1.IH" [OF True ph] rg mem
      using True by (auto simp add: loop_step Suc_diff_le add.assoc)
  next
    case False
    then show ?thesis
      by (subst readRegs_for.simps) (auto simp add: loop_end)
  qed
qed

lemma trace_readRegs_spi:
  assumes "communicationType (self s) = ADXL345_COMM_SPI"
  shows "trace (readRegs regAddr (Some p) size' s) =
           trace s @ [DigitalWrite (csPin (self s)) LOW,
                      SpiTransfer (if 1 < size' then (0x80 OR regAddr) OR 0x40 else 0x80 OR regAddr)]
             @ replicate (unat size') (SpiTransfer 0x00) @ [DigitalWrite (csPin (self s)) HIGH]"
  using assms by (simp add: readRegs_def Let_def trace_readRegs_for self_readRegs_for)

section \<open>Write, then read\<close>

lemma write_then_read_i2c:
  assumes "communicationType (self s) = ADXL345_COMM_I2C" and "0 < BUFFER_LENGTH s"
  shows "fst (readReg regAddr (writeReg regAddr data s)) = Some data"
proof -
  let ?w = "writeReg regAddr data s"
  have w: "communicationType (self ?w) = ADXL345_COMM_I2C" "regs ?w regAddr = data"
    "BUFFER_LENGTH ?w = BUFFER_LENGTH s"
    using assms by (simp_all add: writeReg_def hal_defs Let_def)
  have "fst (readReg regAddr ?w) = Some (if 0 < BUFFER_LENGTH ?w then regs ?w regAddr else 0xFF)"
    using w(1) by (simp add: readReg_def hal_defs Let_def split: list.split)
  with w assms(2) show ?thesis by simp
qed

lemma write_then_read_spi:
  assumes "communicationType (self s) = ADXL345_COMM_SPI" and "csPin (self s) = cs_line s"
    and "spi_phase s = Deselected" and "regAddr < 0x80"
  shows "fst (readReg regAddr (writeReg regAddr data s)) = Some data"
proof -
  let ?w = "writeReg regAddr data s"
  have w: "communicationType (self ?w) = ADXL345_COMM_SPI" "csPin (self ?w) = cs_line ?w"
    "spi_phase ?w = Deselected" "regs ?w (regAddr AND 0x3F) = data"
    using assms by (simp_all add: writeReg_def hal_defs Let_def bit7_clear)
  have "fst (readReg regAddr ?w) = Some (regs ?w ((0x80 OR regAddr) AND 0x3F))"
    using w(1,2,3) by (simp add: readReg_def hal_defs Let_def or80_bit7)
  with w(4) show ?thesis by (simp add: or80_low6)
qed

text \<open>
  On SPI, writing 0 to an address with bit 7 set makes the very calls of a read of one
  register: the bus carries nothing that tells the two apart.
\<close>

lemma spi_write_read_alias:
  assumes "communicationType (self s) = ADXL345_COMM_SPI"
  shows "emitted s (writeReg (0x80 OR regAddr) 0x00 s)
       = emitted s (readRegs regAddr (Some p) 1 s)"
  using assms
  by (simp add: emitted_def writeReg_def Let_def trace_readRegs_spi)

text \<open>
  Claim C1, as amended. Against the simulated register file, \<open>writeReg\<close> followed by
  \<open>readReg\<close> on the same address returns the written value: in I2C mode for every
  address and value (the receive buffer of \<open>Wire\<close> holding at least one byte); in SPI
  mode for every value and every address below \<open>0x80\<close>, on a handle whose chip-select
  pin is the line the slave is wired to and with the slave deselected, as construction
  leaves it.
\<close>

theorem write_then_read:
  assumes "communicationType (self s) = ADXL345_COMM_I2C \<and> 0 < BUFFER_LENGTH s
         \<or> communicationType (self s) = ADXL345_COMM_SPI \<and> csPin (self s) = cs_line s
            \<and> spi_phase s = Deselected \<and> regAddr < 0x80"
  shows "fst (readReg regAddr (writeReg regAddr data s)) = Some data"
  using assms write_then_read_i2c write_then_read_spi by blast

theorem write_then_read_witness:
  "fst (readReg 0x2D (writeReg 0x2D 8 i2c_handle)) = Some 8
   \<and> fst (readReg 0x2D (writeReg 0x2D 8 spi_handle)) = Some 8"
  using write_then_read [of i2c_handle "0x2D" 8] write_then_read [of spi_handle "0x2D" 8]
  by (simp add: i2c_handle_eq spi_handle_eq power_on_def)

text \<open>
  Claim C1 as stated fails in SPI mode at address \<open>0x80\<close>: \<open>writeReg\<close> transfers
  the address byte as it is, bit 7 marks a read, so the value 1 is never stored and
  \<open>readReg\<close> returns the old content 0 of register 0.
\<close>

theorem write_then_read_counterexample:
  "fst (readReg 0x80 (writeReg 0x80 0x01 spi_handle)) = Some 0x00
   \<and> fst (readReg 0x80 (writeReg 0x80 0x01 spi_handle)) \<noteq> Some 0x01"
  by (simp add: spi_handle_eq power_on_def writeReg_def readReg_def hal_defs Let_def)

section \<open>The address byte of an SPI read\<close>

text \<open>
  Claim C2, as amended. In SPI mode the address byte of every read (\<open>readReg\<close>, and
  \<open>readRegs\<close> with a valid buffer and any count) has bit 7 set, and its bit 6 is set
  if and only if the count is greater than 1 or bit 6 of the given register address is
  set (\<open>readReg\<close> counting as count 1): the address is not masked.
\<close>

theorem spi_read_address_byte:
  assumes "communicationType (self s) = ADXL345_COMM_SPI"
  shows "(\<exists>b. first_transfer (emitted s (snd (readReg regAddr s))) = Some b
            \<and> bit b 7 \<and> (bit b 6 \<longleftrightarrow> bit regAddr 6))
         \<and> (\<exists>b. first_transfer (emitted s (readRegs regAddr (Some p) size' s)) = Some b
            \<and> bit b 7 \<and> (bit b 6 \<longleftrightarrow> 1 < size' \<or> bit regAddr 6))"
proof -
  have "first_transfer (emitted s (snd (readReg regAddr s))) = Some (0x80 OR regAddr)"
    using assms by (simp add: emitted_def readReg_def Let_def)
  moreover have "first_transfer (emitted s (readRegs regAddr (Some p) size' s)) =
      Some (if 1 < size' then (0x80 OR regAddr) OR 0x40 else 0x80 OR regAddr)"
    by (simp add: emitted_def trace_readRegs_spi [OF assms])
  ultimately show ?thesis
    by (simp add: bit_or_iff)
qed

theorem spi_read_address_byte_witness:
  "first_transfer (emitted spi_handle (snd (readReg 0x32 spi_handle))) = Some 0xB2
   \<and> bit (0xB2 :: uint8_t) 7 \<and> \<not> bit (0xB2 :: uint8_t) 6
   \<and> first_transfer (emitted spi_handle (readRegs 0x32 (Some 100) 6 spi_handle)) = Some 0xF2
   \<and> bit (0xF2 :: uint8_t) 7 \<and> bit (0xF2 :: uint8_t) 6"
proof -
  have m: "communicationType (self spi_handle) = ADXL345_COMM_SPI"
    by (simp add: spi_handle_eq power_on_def)
  have "first_transfer (emitted spi_handle (snd (readReg 0x32 spi_handle))) = Some 0xB2"
    using m by (simp add: emitted_def readReg_def Let_def)
  moreover have
    "first_transfer (emitted spi_handle (readRegs 0x32 (Some 100) 6 spi_handle)) = Some 0xF2"
    by (simp add: emitted_def trace_readRegs_spi [OF m])
  ultimately show ?thesis
    using spi_read_address_byte [OF m, of "0x32" 100 6] by simp
qed

text \<open>
  Claim C2 as stated fails at register address \<open>0x40\<close>: the single-register read
  \<open>readReg\<close> (count 1) transmits \<open>0xC0\<close>, with bit 6 set.
\<close>

theorem spi_read_address_byte_counterexample:
  "first_transfer (emitted spi_handle (snd (readReg 0x40 spi_handle))) = Some 0xC0
   \<and> \<not> read_address_encoding 0xC0 1"
  by (simp add: emitted_def readReg_def Let_def spi_handle_eq power_on_def
      read_address_encoding_def)

section \<open>Chip-select\<close>

text \<open>\<open>writeReg\<close> and \<open>readRegs\<close> keep the chip-select discipline.\<close>

lemma writeReg_spi_cs_framed:
  assumes "communicationType (self s) = ADXL345_COMM_SPI"
  shows "cs_framed (csPin (self s)) (emitted s (writeReg regAddr data s))"
  using assms by (simp add: cs_framed_def emitted_def writeReg_def Let_def)

lemma readRegs_spi_cs_framed:
  assumes "communicationType (self s) = ADXL345_COMM_SPI"
  shows "cs_framed (csPin (self s)) (emitted s (readRegs regAddr (Some p) size' s))"
  by (simp add: cs_framed_def emitted_def trace_readRegs_spi [OF assms] butlast_append
      list_all_iff)

text \<open>
  Claim C3 fails for \<open>readReg\<close>. On the handle constructed in SPI mode with
  chip-select on line 10, \<open>readReg(0x32)\<close> drives line 10 low, makes its two
  transfers and then drives line \<open>0xB2\<close> high: the calls do not keep the chip-select
  discipline, and line 10 is still low when \<open>readReg\<close> returns.
\<close>

theorem readReg_spi_leaves_cs_low:
  "emitted spi_handle (snd (readReg 0x32 spi_handle)) =
     [DigitalWrite 10 LOW, SpiTransfer 0xB2, SpiTransfer 0x00, DigitalWrite 0xB2 HIGH]
   \<and> \<not> cs_framed (csPin (self spi_handle)) (emitted spi_handle (snd (readReg 0x32 spi_handle)))
   \<and> pin_level (snd (readReg 0x32 spi_handle)) (csPin (self spi_handle)) = LOW"
  by (simp add: cs_framed_def emitted_def spi_handle_eq power_on_def readReg_def hal_defs Let_def)

text \<open>
  What follows from it: the slave is still inside the read transaction, so a write after
  a \<open>readReg\<close> is not taken as a write, and reading back gives the old content.
\<close>

lemma write_after_readReg_is_lost:
  "fst (readReg 0x2D (writeReg 0x2D 8 (snd (readReg 0x00 spi_handle)))) = Some 0x2D"
  by (simp add: spi_handle_eq power_on_def writeReg_def readReg_def hal_defs Let_def)

text \<open>
  Claim C4. In the SPI path of \<open>readReg\<close> the last call drives high the line whose
  number is the read-encoded address \<open>0x80 | regAddr\<close>, not the stored chip-select
  line: unless the two numbers coincide, the chip-select line is low afterwards.
\<close>

theorem readReg_spi_deasserts_address_pin:
  assumes "communicationType (self s) = ADXL345_COMM_SPI"
  shows "trace (snd (readReg regAddr s)) =
           trace s @ [DigitalWrite (csPin (self s)) LOW, SpiTransfer (0x80 OR regAddr),
                      SpiTransfer 0x00, DigitalWrite (0x80 OR regAddr) HIGH]
         \<and> (csPin (self s) \<noteq> 0x80 OR regAddr \<longrightarrow>
              pin_level (snd (readReg regAddr s)) (csPin (self s)) = LOW)"
  using assms
  by (simp add: readReg_def Let_def)
     (simp add: digitalWrite_def SPI_transfer_def log_call_def Let_def split: spi_phase.split)

theorem readReg_spi_deasserts_address_pin_witness:
  "trace (snd (readReg 0x32 spi_handle)) =
     [SpiBegin, SpiSetDataMode SPI_MODE3, PinMode 10 OUTPUT, DigitalWrite 10 HIGH,
      DigitalWrite 10 LOW, SpiTransfer 0xB2, SpiTransfer 0x00, DigitalWrite 0xB2 HIGH]
   \<and> pin_level (snd (readReg 0x32 spi_handle)) 10 = LOW"
  using readReg_spi_deasserts_address_pin [of spi_handle "0x32"]
  by (simp add: spi_handle_eq power_on_def)

section \<open>Reading several registers\<close>

lemma readRegs_fills_buffer_i2c:
  assumes "communicationType (self s) = ADXL345_COMM_I2C" and "unat size' \<le> BUFFER_LENGTH s"
  shows "memory (readRegs regAddr (Some p) size' s) q =
           (if p \<le> q \<and> q < p + unat size' then regs s (regAddr + of_nat (q - p))
            else memory s q)"
proof -
  let ?s3 = "Wire_endTransmission True (Wire_write regAddr
               (Wire_beginTransmission ADXL345_I2C_ADDRESS s))"
  let ?s4 = "Wire_requestFrom ADXL345_I2C_ADDRESS (uint size') True ?s3"
  have s3: "BUFFER_LENGTH ?s3 = BUFFER_LENGTH s" "regs ?s3 = regs s" "i2c_pointer ?s3 = regAddr"
    "memory ?s3 = memory s"
    by (simp_all add: hal_defs Let_def)
  have rx: "rxBuffer ?s4 = map (\<lambda>k. regs s (regAddr + of_nat k)) [0..<unat size']"
    and mem: "memory ?s4 = memory s"
    unfolding Wire_requestFrom_def Let_def s3 using assms(2)
    by (simp_all add: log_call_def min_absorb1 s3)
  have len: "length (rxBuffer ?s4) = unat size'"
    by (simp add: rx)
  have nth: "rxBuffer ?s4 ! k = regs s (regAddr + of_nat k)" if "k < unat size'" for k
    using that by (simp add: rx)
  have "readRegs regAddr (Some p) size' s = readRegs_while p ?s4"
    using assms(1) by (simp add: readRegs_def Let_def)
  then have m: "memory (readRegs regAddr (Some p) size' s) q =
      (if p \<le> q \<and> q < p + unat size' then rxBuffer ?s4 ! (q - p) else memory s q)"
    by (simp only: memory_readRegs_while len mem)
  show ?thesis
  proof (cases "p \<le> q \<and> q < p + unat size'")
    case True
    then have "q - p < unat size'" by arith
    from nth [OF this] m True show ?thesis by (simp only: if_True)
  next
    case False
    with m show ?thesis by (simp only: if_False)
  qed
qed

lemma readRegs_fills_buffer_spi:
  assumes "communicationType (self s) = ADXL345_COMM_SPI" and "csPin (self s) = cs_line s"
    and "spi_phase s = Deselected" and "regAddr < 0x40"
  shows "memory (readRegs regAddr (Some p) size' s) q =
           (if p \<le> q \<and> q < p + unat size' then regs s (regAddr + of_nat (q - p))
            else memory s q)"
proof -
  let ?b = "if 1 < size' then (0x80 OR regAddr) OR 0x40 else 0x80 OR regAddr"
  let ?s2 = "snd (SPI_transfer ?b (digitalWrite (csPin (self s)) LOW s))"
  have s2: "spi_phase ?s2 = Data True (1 < size') regAddr" "regs ?s2 = regs s"
    "memory ?s2 = memory s"
    using assms
    by (simp_all add: digitalWrite_def SPI_transfer_def log_call_def Let_def
        or80_bit7 or80_bit6 or40_bit6 or40_bit7 or40_low6 or80_low6 low6 bit6_clear)
  have "readRegs regAddr (Some p) size' s =
      digitalWrite (csPin (self (readRegs_for 0 size' p ?s2))) HIGH (readRegs_for 0 size' p ?s2)"
    using assms(1) by (simp add: readRegs_def Let_def)
  then have m: "memory (readRegs regAddr (Some p) size' s) q =
      (if p \<le> q \<and> q < p + unat size'
       then regs s (if 1 < size' then regAddr + of_nat (q - p) else regAddr) else memory s q)"
    by (simp add: memory_readRegs_for [OF s2(1)] s2)
  show ?thesis
  proof (cases "p \<le> q \<and> q < p + unat size'")
    case True
    have "(if 1 < size' then regAddr + of_nat (q - p) else regAddr) = regAddr + of_nat (q - p)"
    proof (cases "1 < size'")
      case False
      then have "unat size' \<le> 1" by unat_arith
      with True have "q - p = 0" by arith
      with False show ?thesis by simp
    qed (simp only: if_True)
    with m True show ?thesis by (simp only: if_True)
  next
    case False
    with m show ?thesis by (simp only: if_False)
  qed
qed

text \<open>
  In a multi-byte SPI read bit 6 of the register address is lost in the flag of the
  address byte: the same calls are made for the address with and without it, so no device
  can tell the two reads apart.
\<close>

lemma spi_burst_read_alias:
  assumes "communicationType (self s) = ADXL345_COMM_SPI" and "1 < size'"
  shows "trace (readRegs (regAddr OR 0x40) (Some p) size' s)
       = trace (readRegs regAddr (Some p) size' s)"
proof -
  have "(0x80 OR (regAddr OR 0x40)) OR 0x40 = (0x80 OR regAddr) OR 0x40"
    by (simp add: or.assoc)
  with assms(2) show ?thesis
    by (simp add: trace_readRegs_spi [OF assms(1)])
qed

text \<open>
  Claim C5, as amended. With a valid buffer at \<open>p\<close>, \<open>readRegs\<close> stores exactly
  \<open>size'\<close> bytes, the slot \<open>p + i\<close> receiving the simulated register
  \<open>regAddr + i\<close> (addresses taken modulo 256), and changes no other memory: in I2C mode
  for every address and every count up to the capacity \<open>BUFFER_LENGTH\<close> of the receive
  buffer of \<open>Wire\<close>; in SPI mode for every count and every address below \<open>0x40\<close>,
  on a handle whose chip-select pin is the line the slave is wired to and with the slave
  deselected, as construction leaves it.
\<close>

theorem readRegs_fills_buffer:
  assumes "communicationType (self s) = ADXL345_COMM_I2C \<and> unat size' \<le> BUFFER_LENGTH s
         \<or> communicationType (self s) = ADXL345_COMM_SPI \<and> csPin (self s) = cs_line s
            \<and> spi_phase s = Deselected \<and> regAddr < 0x40"
  shows "memory (readRegs regAddr (Some p) size' s) q =
           (if p \<le> q \<and> q < p + unat size' then regs s (regAddr + of_nat (q - p))
            else memory s q)"
  using assms readRegs_fills_buffer_i2c readRegs_fills_buffer_spi by blast

theorem readRegs_fills_buffer_witness:
  "memory (readRegs 0x32 (Some 100) 6 i2c_handle) 105 = 0x37
   \<and> memory (readRegs 0x32 (Some 100) 6 i2c_handle) 106 = 0
   \<and> memory (readRegs 0x32 (Some 100) 6 spi_handle) 100 = 0x32
   \<and> memory (readRegs 0x32 (Some 100) 6 spi_handle) 99 = 0"
  using readRegs_fills_buffer [of i2c_handle 6 "0x32" 100 105]
    readRegs_fills_buffer [of i2c_handle 6 "0x32" 100 106]
    readRegs_fills_buffer [of spi_handle 6 "0x32" 100 100]
    readRegs_fills_buffer [of spi_handle 6 "0x32" 100 99]
  by (simp add: i2c_handle_eq spi_handle_eq power_on_def)

text \<open>
  Claim C5 as stated fails in SPI mode at address \<open>0x40\<close> with count 2: the first
  buffer slot receives register 0 (content 0), not register \<open>0x40\<close> (content
  \<open>0x40\<close>).
\<close>

theorem readRegs_fills_buffer_counterexample:
  "memory (readRegs 0x40 (Some 100) 2 spi_handle) 100 = 0x00
   \<and> regs spi_handle 0x40 = 0x40"
  by (simp add: spi_handle_eq power_on_def readRegs_def readRegs_for.simps hal_defs Let_def)

section \<open>A null buffer\<close>

text \<open>
  Claim C6. For every mode, address and count, \<open>readRegs\<close> with a null buffer
  pointer is a no-op: the whole state (the log of platform calls, the memory, the bus and
  the object) is what it was, and there is no error result.
\<close>

theorem readRegs_null_noop: "readRegs regAddr None size' s = s"
  by (simp add: readRegs_def)

section \<open>The I2C call sequences\<close>

text \<open>
  Claim C7. In I2C mode \<open>writeReg\<close> issues exactly one transaction to the device
  address \<open>0x53\<close> with exactly two payload bytes, the register address and then the
  value; and \<open>readRegs\<close> with a valid buffer issues exactly one transaction holding only
  the register address, then exactly one read request of \<open>size'\<close> bytes, and after
  that only takes the received bytes out of the buffer of \<open>Wire\<close>.
\<close>

theorem i2c_write_and_burst_read_calls:
  assumes "communicationType (self s) = ADXL345_COMM_I2C"
  shows "trace (writeReg regAddr data s) =
           trace s @ [WireBeginTransmission 0x53, WireWrite regAddr, WireWrite data,
                      WireEndTransmission True]
         \<and> trace (readRegs regAddr (Some p) size' s) =
           trace s @ [WireBeginTransmission 0x53, WireWrite regAddr, WireEndTransmission True,
                      WireRequestFrom 0x53 (uint size') True]
             @ concat (replicate (min (unat size') (BUFFER_LENGTH s)) [WireAvailable, WireRead])
             @ [WireAvailable]"
proof -
  have w: "trace (writeReg regAddr data s) =
           trace s @ [WireBeginTransmission 0x53, WireWrite regAddr, WireWrite data,
                      WireEndTransmission True]"
    using assms
    by (simp add: writeReg_def Let_def Wire_beginTransmission_def Wire_write_def log_call_def
        ADXL345_I2C_ADDRESS_def)
  let ?s3 = "Wire_endTransmission True (Wire_write regAddr
               (Wire_beginTransmission ADXL345_I2C_ADDRESS s))"
  let ?s4 = "Wire_requestFrom ADXL345_I2C_ADDRESS (uint size') True ?s3"
  have bl: "BUFFER_LENGTH ?s3 = BUFFER_LENGTH s"
    by (simp add: hal_defs Let_def)
  have rx: "length (rxBuffer ?s4) = min (unat size') (BUFFER_LENGTH s)"
    unfolding Wire_requestFrom_def Let_def bl by (simp add: log_call_def)
  have tr: "trace ?s4 = trace s @ [WireBeginTransmission 0x53, WireWrite regAddr,
              WireEndTransmission True, WireRequestFrom 0x53 (uint size') True]"
    by (simp add: Wire_requestFrom_def Let_def Wire_beginTransmission_def Wire_write_def
        log_call_def ADXL345_I2C_ADDRESS_def)
  have "readRegs regAddr (Some p) size' s = readRegs_while p ?s4"
    using assms by (simp add: readRegs_def Let_def)
  then have "trace (readRegs regAddr (Some p) size' s) =
      trace ?s4 @ concat (replicate (length (rxBuffer ?s4)) [WireAvailable, WireRead])
        @ [WireAvailable]"
    by (simp only: trace_readRegs_while)
  with w show ?thesis
    unfolding rx tr by simp
qed

theorem i2c_write_and_burst_read_calls_witness:
  "trace (writeReg 0x32 8 i2c_handle) =
     [WireBegin, WireBeginTransmission 0x53, WireWrite 0x32, WireWrite 8, WireEndTransmission True]
   \<and> trace (readRegs 0x32 (Some 100) 2 i2c_handle) =
     [WireBegin, WireBeginTransmission 0x53, WireWrite 0x32, WireEndTransmission True,
      WireRequestFrom 0x53 2 True, WireAvailable, WireRead, WireAvailable, WireRead,
      WireAvailable]"
proof -
  have two: "min (unat (2 :: uint8_t)) (32 :: nat) = Suc (Suc 0)"
    by simp
  have "concat (replicate (min (unat (2 :: uint8_t)) (32 :: nat)) [WireAvailable, WireRead]) =
      [WireAvailable, WireRead, WireAvailable, WireRead]"
    unfolding two by simp
  moreover have "communicationType (self i2c_handle) = ADXL345_COMM_I2C"
    and "trace i2c_handle = [WireBegin]" and "BUFFER_LENGTH i2c_handle = 32"
    by (simp_all add: i2c_handle_eq power_on_def)
  ultimately show ?thesis
    using i2c_write_and_burst_read_calls [of i2c_handle "0x32" 8 100 2] by simp
qed

text \<open>
  Claim C8. In I2C mode \<open>readReg\<close> begins a transmission to the device, sends the
  register address, ends the transmission without a stop condition, requests exactly one
  byte with a stop condition afterwards, takes one byte out of the buffer of \<open>Wire\<close>
  and returns it: the byte the device sent, the content of the addressed register (or
  \<open>0xFF\<close>, the \<open>-1\<close> of \<open>Wire.read\<close>, when the buffer can hold no byte).
\<close>

theorem readReg_i2c_sequence:
  assumes "communicationType (self s) = ADXL345_COMM_I2C"
  shows "trace (snd (readReg regAddr s)) =
           trace s @ [WireBeginTransmission 0x53, WireWrite regAddr, WireEndTransmission False,
                      WireRequestFrom 0x53 1 True, WireRead]
         \<and> fst (readReg regAddr s) = Some (if 0 < BUFFER_LENGTH s then regs s regAddr else 0xFF)"
  using assms
  by (simp add: readReg_def hal_defs Let_def split: list.split)

theorem readReg_i2c_sequence_witness:
  "trace (snd (readReg 0x32 i2c_handle)) =
     [WireBegin, WireBeginTransmission 0x53, WireWrite 0x32, WireEndTransmission False,
      WireRequestFrom 0x53 1 True, WireRead]
   \<and> fst (readReg 0x32 i2c_handle) = Some 0x32"
  using readReg_i2c_sequence [of i2c_handle "0x32"]
  by (simp add: i2c_handle_eq power_on_def)

section \<open>The handle\<close>

lemma self_writeReg: "self (writeReg regAddr data s) = self s"
  by (simp add: writeReg_def Let_def Wire_beginTransmission_def Wire_write_def log_call_def)

lemma self_readReg: "self (snd (readReg regAddr s)) = self s"
  by (simp add: readReg_def Let_def Wire_beginTransmission_def Wire_write_def Wire_read_def
      log_call_def split: list.split)

lemma self_readRegs: "self (readRegs regAddr pBuffer size' s) = self s"
  by (simp add: readRegs_def Let_def Wire_beginTransmission_def Wire_write_def log_call_def
      self_readRegs_while self_readRegs_for split: option.split)

lemma self_perform: "self (perform c s) = self s"
  by (cases c) (simp_all add: self_writeReg self_readReg self_readRegs)

lemma self_fold_perform: "self (fold perform cs s) = self s"
  by (induction cs arbitrary: s) (simp_all add: self_perform)

text \<open>
  Claim C9. The constructor sets the communication mode and the chip-select line of the
  handle; \<open>writeReg\<close>, \<open>readReg\<close> and \<open>readRegs\<close> leave both fields as they
  are, and so does every sequence of such calls: for its whole life the handle keeps the
  mode, and with it the bus, it was constructed with.
\<close>

theorem handle_fields_fixed:
  "self (ADXL345_new commType pin s) = \<lparr>communicationType = commType, csPin = pin\<rparr>
   \<and> self (writeReg regAddr data s) = self s
   \<and> self (snd (readReg regAddr s)) = self s
   \<and> self (readRegs regAddr pBuffer size' s) = self s
   \<and> self (fold perform cs (ADXL345_new commType pin s))
       = \<lparr>communicationType = commType, csPin = pin\<rparr>"
proof -
  have "self (ADXL345_new commType pin s) = \<lparr>communicationType = commType, csPin = pin\<rparr>"
    by (simp add: ADXL345_new_def Let_def SPI_begin_def SPI_setDataMode_def pinMode_def
        Wire_begin_def log_call_def)
  then show ?thesis
    by (simp add: self_writeReg self_readReg self_readRegs self_fold_perform)
qed

text \<open>
  Claim C10. When the mode of the handle is neither the I2C nor the SPI enumerator,
  \<open>readReg\<close> makes no platform call, changes nothing, and returns its local
  \<open>buffer\<close> as it is, never assigned: an indeterminate byte, with no error indication.
\<close>

theorem readReg_other_mode:
  "communicationType (self s) \<noteq> ADXL345_COMM_I2C \<Longrightarrow>
   communicationType (self s) \<noteq> ADXL345_COMM_SPI \<Longrightarrow>
   readReg regAddr s = (None, s)"
  by (simp add: readReg_def)

theorem readReg_other_mode_witness:
  "communicationType (self power_on) = ADXL345_COMM_INVALID
   \<and> readReg 0x32 power_on = (None, power_on)"
  using readReg_other_mode [of power_on "0x32"] by (simp add: power_on_def)

end
